theory Spec2Isabelle
  imports Main "HOL-Library.Word"
begin

unbundle bit_operations_syntax

section \<open>Python strings\<close>

text \<open>
  Python strings are modelled as \<open>string\<close>; a \<open>char\<close> stands for a code point
  below 256. The helpers below are the \<open>str\<close> methods the translator calls.
\<close>

datatype error = ValueError string | IndexError | TypeError | KeyError | AssemblerError string

text \<open>\<open>c.isspace()\<close> on the code points below 256.\<close>

definition isspace :: "char \<Rightarrow> bool" where
  "isspace c = (c \<in> set [CHR 0x09, CHR 0x0A, CHR 0x0B, CHR 0x0C, CHR 0x0D, CHR 0x1C,
      CHR 0x1D, CHR 0x1E, CHR 0x1F, CHR 0x20, CHR 0x85, CHR 0xA0])"

text \<open>\<open>c.isdigit()\<close> on the code points below 256 that \<open>int\<close> also accepts.\<close>

definition isdigit :: "char \<Rightarrow> bool" where
  "isdigit c = (c \<in> set ''0123456789'')"

definition digit_val :: "char \<Rightarrow> nat" where
  "digit_val c = of_char c - 48"

text \<open>\<open>s.strip()\<close>\<close>

definition strip :: "string \<Rightarrow> string" where
  "strip s = rev (dropWhile isspace (rev (dropWhile isspace s)))"

text \<open>\<open>s.split()\<close>: the maximal runs of non-whitespace characters.\<close>

fun split_from :: "string \<Rightarrow> string \<Rightarrow> string list" where
  "split_from cur [] = (if cur = [] then [] else [cur])"
| "split_from cur (c # cs) =
     (if isspace c then (if cur = [] then split_from [] cs else cur # split_from [] cs)
      else split_from (cur @ [c]) cs)"

definition split_ws :: "string \<Rightarrow> string list" where
  "split_ws s = split_from [] s"

text \<open>\<open>s.startswith(p)\<close>\<close>

fun startswith :: "string \<Rightarrow> string \<Rightarrow> bool" where
  "startswith s [] = True"
| "startswith [] (p # ps) = False"
| "startswith (c # cs) (p # ps) = (c = p \<and> startswith cs ps)"

text \<open>\<open>s.split('//')[0]\<close>: the text before the first \<open>//\<close>.\<close>

fun before_slashes :: "string \<Rightarrow> string" where
  "before_slashes (a # b # cs) =
     (if a = CHR ''/'' \<and> b = CHR ''/'' then [] else a # before_slashes (b # cs))"
| "before_slashes cs = cs"

text \<open>\<open>s.replace('.vm', '')\<close>\<close>

fun remove_vm :: "string \<Rightarrow> string" where
  "remove_vm (a # b # c # cs) =
     (if a = CHR ''.'' \<and> b = CHR ''v'' \<and> c = CHR ''m'' then remove_vm cs
      else a # remove_vm (b # c # cs))"
| "remove_vm cs = cs"

text \<open>\<open>os.path.basename(p)\<close>: the text after the last \<open>/\<close>.\<close>

definition basename :: "string \<Rightarrow> string" where
  "basename p = rev (takeWhile (\<lambda>c. c \<noteq> CHR ''/'') (rev p))"

text \<open>\<open>str(n)\<close> for an integer.\<close>

definition digit_char :: "nat \<Rightarrow> char" where
  "digit_char d = ''0123456789'' ! d"

fun str_nat :: "nat \<Rightarrow> string" where
  "str_nat n = (if n < 10 then [digit_char n] else str_nat (n div 10) @ [digit_char (n mod 10)])"

definition str_int :: "int \<Rightarrow> string" where
  "str_int i = (if i < 0 then CHR ''-'' # str_nat (nat (- i)) else str_nat (nat i))"

text \<open>
  \<open>int(s)\<close> for a token: an optional sign, then decimal digits, where single
  underscores may stand between two digits. \<open>None\<close> is Python's \<open>ValueError\<close>.
  (The interpreter's limit on the number of digits is not modelled.)
\<close>

fun int_digits :: "nat \<Rightarrow> bool \<Rightarrow> string \<Rightarrow> nat option" where
  "int_digits acc after_digit [] = (if after_digit then Some acc else None)"
| "int_digits acc after_digit (c # cs) =
     (if isdigit c then int_digits (10 * acc + digit_val c) True cs
      else if c = CHR ''_'' \<and> after_digit then int_digits acc False cs
      else None)"

definition py_int :: "string \<Rightarrow> int option" where
  "py_int s = (case strip s of
       [] \<Rightarrow> None
     | c # cs \<Rightarrow>
         if c = CHR ''-'' then map_option (\<lambda>n. - int n) (int_digits 0 False cs)
         else if c = CHR ''+'' then map_option int (int_digits 0 False cs)
         else map_option int (int_digits 0 False (c # cs)))"

section \<open>The VM command parser (\<open>08_vm_part2/parser.py\<close>)\<close>

text \<open>
  The dictionaries \<open>parse_command\<close> returns, one constructor per \<open>'type'\<close>.
  Segment names and operations stay strings: the parser does not check them.
\<close>

datatype command =
    Arithmetic string
  | Push string int
  | Pop string int
  | Label string
  | Goto string
  | IfGoto string
  | Function string int
  | Call string int
  | Return

text \<open>\<open>parts[i]\<close>, raising \<open>IndexError\<close> out of range.\<close>

definition part :: "string list \<Rightarrow> nat \<Rightarrow> error + string" where
  "part parts i = (if i < length parts then Inr (parts ! i) else Inl IndexError)"

text \<open>\<open>int(parts[i])\<close>\<close>

definition int_part :: "string list \<Rightarrow> nat \<Rightarrow> error + int" where
  "int_part parts i = (case part parts i of
       Inl e \<Rightarrow> Inl e
     | Inr s \<Rightarrow> (case py_int s of
           None \<Rightarrow> Inl (ValueError (''invalid literal for int() with base 10: '' @ s))
         | Some n \<Rightarrow> Inr n))"

definition parse_command :: "string \<Rightarrow> error + command" where
  "parse_command line =
    (let parts = split_ws line in
     case part parts 0 of
       Inl e \<Rightarrow> Inl e
     | Inr cmd_type \<Rightarrow>
        if cmd_type \<in> set [''add'', ''sub'', ''neg'', ''eq'', ''gt'', ''lt'', ''and'', ''or'', ''not'']
        then Inr (Arithmetic cmd_type)
        else if cmd_type = ''push'' then
          (case part parts 1 of Inl e \<Rightarrow> Inl e | Inr seg \<Rightarrow>
            (case int_part parts 2 of Inl e \<Rightarrow> Inl e | Inr i \<Rightarrow> Inr (Push seg i)))
        else if cmd_type = ''pop'' then
          (case part parts 1 of Inl e \<Rightarrow> Inl e | Inr seg \<Rightarrow>
            (case int_part parts 2 of Inl e \<Rightarrow> Inl e | Inr i \<Rightarrow> Inr (Pop seg i)))
        else if cmd_type = ''label'' then
          (case part parts 1 of Inl e \<Rightarrow> Inl e | Inr l \<Rightarrow> Inr (Label l))
        else if cmd_type = ''goto'' then
          (case part parts 1 of Inl e \<Rightarrow> Inl e | Inr l \<Rightarrow> Inr (Goto l))
        else if cmd_type = ''if-goto'' then
          (case part parts 1 of Inl e \<Rightarrow> Inl e | Inr l \<Rightarrow> Inr (IfGoto l))
        else if cmd_type = ''function'' then
          (case part parts 1 of Inl e \<Rightarrow> Inl e | Inr f \<Rightarrow>
            (case int_part parts 2 of Inl e \<Rightarrow> Inl e | Inr n \<Rightarrow> Inr (Function f n)))
        else if cmd_type = ''call'' then
          (case part parts 1 of Inl e \<Rightarrow> Inl e | Inr f \<Rightarrow>
            (case int_part parts 2 of Inl e \<Rightarrow> Inl e | Inr n \<Rightarrow> Inr (Call f n)))
        else if cmd_type = ''return'' then Inr Return
        else Inl (ValueError (''Unknown command: '' @ cmd_type)))"

text \<open>
  The parser object: the lines \<open>readlines()\<close> returned, the index of the next line,
  and the last command parsed (\<open>None\<close> until the first one).
\<close>

record parser =
  lines :: "string list"
  current_line :: nat
  current_command :: "command option"

definition Parser_init :: "string list \<Rightarrow> parser" where
  "Parser_init ls = \<lparr>lines = ls, current_line = 0, current_command = None\<rparr>"

definition has_more_commands :: "parser \<Rightarrow> bool" where
  "has_more_commands p = (current_line p < length (lines p))"

function advance :: "parser \<Rightarrow> error + parser" where
  "advance p =
    (if has_more_commands p then
       (let line = strip (lines p ! current_line p);
            p1 = p\<lparr>current_line := current_line p + 1\<rparr>
        in if line = [] \<or> startswith line ''//'' then advance p1
           else (case parse_command (strip (before_slashes line)) of
                   Inl e \<Rightarrow> Inl e
                 | Inr c \<Rightarrow> Inr (p1\<lparr>current_command := Some c\<rparr>)))
     else Inr p)"
  by pat_completeness auto
termination
  by (relation "measure (\<lambda>p. length (lines p) - current_line p)")
     (auto simp: has_more_commands_def)

declare advance.simps [simp del]

lemma advance_lines: "advance p = Inr p' \<Longrightarrow> lines p' = lines p"
proof (induction p rule: advance.induct)
  case (1 p)
  then show ?case
    by (subst (asm) (2) advance.simps)
       (auto simp: Let_def split: if_splits sum.splits)
qed

lemma advance_progress:
  "advance p = Inr p' \<Longrightarrow> has_more_commands p \<Longrightarrow> current_line p < current_line p'"
proof (induction p rule: advance.induct)
  case (1 p)
  let ?p1 = "p\<lparr>current_line := current_line p + 1\<rparr>"
  let ?line = "strip (lines p ! current_line p)"
  show ?case
  proof (cases "?line = [] \<or> startswith ?line ''//''")
    case True
    with "1.prems" have adv: "advance ?p1 = Inr p'"
      by (subst (asm) advance.simps) (simp add: Let_def)
    show ?thesis
    proof (cases "has_more_commands ?p1")
      case True
      with "1.IH" [OF "1.prems"(2) refl refl \<open>?line = [] \<or> startswith ?line ''//''\<close> adv]
      show ?thesis by simp
    next
      case False
      with adv have "p' = ?p1" by (subst (asm) advance.simps) simp
      then show ?thesis by simp
    qed
  next
    case False
    with "1.prems" show ?thesis
      by (subst (asm) advance.simps) (auto simp: Let_def split: sum.splits)
  qed
qed

lemma advance_progress_lines:
  "advance p = Inr p' \<Longrightarrow> has_more_commands p \<Longrightarrow>
     length (lines p') - current_line p' < length (lines p) - current_line p"
  using advance_progress [of p p'] advance_lines [of p p']
  by (simp add: has_more_commands_def)

section \<open>The code generator (\<open>08_vm_part2/code_generator.py\<close>)\<close>

text \<open>
  The generator returns assembly text. Every fragment of the source ends its lines with
  a newline, so a block of text is written here as the list of its lines; \<open>text_of\<close>
  appends the newline to each and concatenates them.
\<close>

definition nl :: string where
  "nl = [CHR 0x0A]"

definition text_of :: "string list \<Rightarrow> string" where
  "text_of ls = concat (map (\<lambda>l. l @ nl) ls)"

record gen_state =
  label_counter :: nat
  return_counter :: nat
  current_file :: string
  current_function :: string

text \<open>\<open>CodeGenerator.__init__(filename=None)\<close>\<close>

definition CodeGenerator_init :: "string option \<Rightarrow> gen_state" where
  "CodeGenerator_init filename =
     \<lparr>label_counter = 0, return_counter = 0,
      current_file = (case filename of
           None \<Rightarrow> ''default''
         | Some f \<Rightarrow> if f = [] then ''default'' else basename (remove_vm f)),
      current_function = []\<rparr>"

text \<open>The five lines that push a zero word: the body of the loops
  \<open>for _ in range(4)\<close> of \<open>init\<close> and \<open>for i in range(n_locals)\<close> of
  \<open>generate_function\<close>.\<close>

definition push_zero :: "string list" where
  "push_zero = [''@SP'', ''A=M'', ''M=0'', ''@SP'', ''M=M+1'']"

definition init :: string where
  "init = text_of (
     [''// ===== Bootstrap: Initialize VM State ====='',
      ''@256'', ''D=A'', ''@SP'', ''M=D           // SP = 256'', []]
   @ [''// Call Sys.init'',
      ''@Sys.init$ret.bootstrap'', ''D=A'', ''@SP'', ''A=M'', ''M=D'', ''@SP'', ''M=M+1'']
   @ concat (replicate 4 push_zero)
   @ [''@SP'', ''D=M'', ''@5'', ''D=D-A'', ''@ARG'', ''M=D'']
   @ [''@SP'', ''D=M'', ''@LCL'', ''M=D'']
   @ [''@Sys.init'', ''0;JMP'', ''(Sys.init$ret.bootstrap)''])"

definition generate_arithmetic :: "gen_state \<Rightarrow> string \<Rightarrow> string option \<times> gen_state" where
  "generate_arithmetic g operation =
    (if operation \<in> set [''add'', ''sub'', ''and'', ''or''] then
       (Some (text_of (
          [''// '' @ operation, ''@SP'', ''M=M-1'', ''A=M'', ''D=M'', ''@SP'', ''M=M-1'', ''A=M'']
        @ (if operation = ''add'' then [''M=D+M'']
           else if operation = ''sub'' then [''M=M-D'']
           else if operation = ''and'' then [''M=D&M'']
           else if operation = ''or'' then [''M=D|M'']
           else [])
        @ [''@SP'', ''M=M+1''])), g)
     else if operation \<in> set [''neg'', ''not''] then
       (Some (text_of (
          [''// '' @ operation, ''@SP'', ''M=M-1'', ''A=M'']
        @ (if operation = ''neg'' then [''M=-M'']
           else if operation = ''not'' then [''M=!M'']
           else [])
        @ [''@SP'', ''M=M+1''])), g)
     else if operation \<in> set [''eq'', ''gt'', ''lt''] then
       (let label_true = ''TRUE_'' @ str_nat (label_counter g);
            label_end = ''END_'' @ str_nat (label_counter g);
            g' = g\<lparr>label_counter := label_counter g + 1\<rparr>
        in (Some (text_of (
          [''// '' @ operation, ''@SP'', ''M=M-1'', ''A=M'', ''D=M'', ''@SP'', ''M=M-1'', ''A=M'',
           ''D=M-D'']
        @ (if operation = ''eq'' then [''@'' @ label_true, ''D;JEQ'']
           else if operation = ''gt'' then [''@'' @ label_true, ''D;JGT'']
           else if operation = ''lt'' then [''@'' @ label_true, ''D;JLT'']
           else [])
        @ [''@SP'', ''A=M'', ''M=0'', ''@'' @ label_end, ''0;JMP'']
        @ [''('' @ label_true @ '')'', ''@SP'', ''A=M'', ''M=-1'']
        @ [''('' @ label_end @ '')'', ''@SP'', ''M=M+1''])), g'))
     else (None, g))"

text \<open>\<open>pointer_map[segment]\<close>\<close>

definition pointer_map :: "string \<Rightarrow> string" where
  "pointer_map segment =
     (if segment = ''local'' then ''LCL''
      else if segment = ''argument'' then ''ARG''
      else if segment = ''this'' then ''THIS''
      else ''THAT'')"

definition generate_push :: "gen_state \<Rightarrow> string \<Rightarrow> int \<Rightarrow> string option" where
  "generate_push g segment index =
    (if segment = ''constant'' then
       Some (text_of
         [''// push constant '' @ str_int index,
          ''@'' @ str_int index, ''D=A'', ''@SP'', ''A=M'', ''M=D'', ''@SP'', ''M=M+1''])
     else if segment \<in> set [''local'', ''argument'', ''this'', ''that''] then
       Some (text_of
         [''// push '' @ segment @ '' '' @ str_int index,
          ''@'' @ pointer_map segment, ''D=M'', ''@'' @ str_int index, ''A=D+A'', ''D=M'',
          ''@SP'', ''A=M'', ''M=D'', ''@SP'', ''M=M+1''])
     else if segment = ''temp'' then
       (let address = 5 + index in
        Some (text_of
         [''// push temp '' @ str_int index,
          ''@'' @ str_int address, ''D=M'', ''@SP'', ''A=M'', ''M=D'', ''@SP'', ''M=M+1'']))
     else if segment = ''pointer'' then
       (let pointer = (if index = 0 then ''THIS'' else ''THAT'') in
        Some (text_of
         [''// push pointer '' @ str_int index,
          ''@'' @ pointer, ''D=M'', ''@SP'', ''A=M'', ''M=D'', ''@SP'', ''M=M+1'']))
     else if segment = ''static'' then
       (let static_symbol = current_file g @ ''.'' @ str_int index in
        Some (text_of
         [''// push static '' @ str_int index,
          ''@'' @ static_symbol, ''D=M'', ''@SP'', ''A=M'', ''M=D'', ''@SP'', ''M=M+1'']))
     else None)"

definition generate_pop :: "gen_state \<Rightarrow> string \<Rightarrow> int \<Rightarrow> error + string option" where
  "generate_pop g segment index =
    (if segment = ''constant'' then Inl (ValueError ''Cannot pop to constant segment'')
     else if segment \<in> set [''local'', ''argument'', ''this'', ''that''] then
       Inr (Some (text_of
         [''// pop '' @ segment @ '' '' @ str_int index,
          ''@'' @ pointer_map segment, ''D=M'', ''@'' @ str_int index, ''D=D+A'', ''@R13'', ''M=D'',
          ''@SP'', ''M=M-1'', ''A=M'', ''D=M'',
          ''@R13'', ''A=M'', ''M=D'']))
     else if segment = ''temp'' then
       (let address = 5 + index in
        Inr (Some (text_of
         [''// pop temp '' @ str_int index,
          ''@SP'', ''M=M-1'', ''A=M'', ''D=M'', ''@'' @ str_int address, ''M=D''])))
     else if segment = ''pointer'' then
       (let pointer = (if index = 0 then ''THIS'' else ''THAT'') in
        Inr (Some (text_of
         [''// pop pointer '' @ str_int index,
          ''@SP'', ''M=M-1'', ''A=M'', ''D=M'', ''@'' @ pointer, ''M=D''])))
     else if segment = ''static'' then
       (let static_symbol = current_file g @ ''.'' @ str_int index in
        Inr (Some (text_of
         [''// pop static '' @ str_int index,
          ''@SP'', ''M=M-1'', ''A=M'', ''D=M'', ''@'' @ static_symbol, ''M=D''])))
     else Inr None)"

definition generate_label :: "gen_state \<Rightarrow> string \<Rightarrow> string" where
  "generate_label g label =
    (let scoped_label = current_function g @ ''$'' @ label in
     text_of [''// label '' @ label, ''('' @ scoped_label @ '')''])"

definition generate_goto :: "gen_state \<Rightarrow> string \<Rightarrow> string" where
  "generate_goto g label =
    (let scoped_label = current_function g @ ''$'' @ label in
     text_of [''// goto '' @ label, ''@'' @ scoped_label, ''0;JMP''])"

definition generate_if_goto :: "gen_state \<Rightarrow> string \<Rightarrow> string" where
  "generate_if_goto g label =
    (let scoped_label = current_function g @ ''$'' @ label in
     text_of [''// if-goto '' @ label,
              ''@SP'', ''M=M-1'', ''A=M'', ''D=M'', ''@'' @ scoped_label, ''D;JNE''])"

definition generate_function :: "gen_state \<Rightarrow> string \<Rightarrow> int \<Rightarrow> string \<times> gen_state" where
  "generate_function g name n_locals =
    (let g' = g\<lparr>current_function := name\<rparr> in
     (text_of (
        [''// function '' @ name @ '' '' @ str_int n_locals, ''('' @ name @ '')'']
      @ concat (replicate (nat n_locals) push_zero)), g'))"

text \<open>One iteration of the loop over \<open>['LCL', 'ARG', 'THIS', 'THAT']\<close> in
  \<open>generate_call\<close>.\<close>

definition push_segment :: "string \<Rightarrow> string list" where
  "push_segment segment = [''@'' @ segment, ''D=M'', ''@SP'', ''A=M'', ''M=D'', ''@SP'', ''M=M+1'']"

definition generate_call :: "gen_state \<Rightarrow> string \<Rightarrow> int \<Rightarrow> string \<times> gen_state" where
  "generate_call g function_name n_args =
    (let return_label = function_name @ ''$ret.'' @ str_nat (return_counter g);
         g' = g\<lparr>return_counter := return_counter g + 1\<rparr>
     in (text_of (
        [''// call '' @ function_name @ '' '' @ str_int n_args]
      @ [''@'' @ return_label, ''D=A'', ''@SP'', ''A=M'', ''M=D'', ''@SP'', ''M=M+1'']
      @ concat (map push_segment [''LCL'', ''ARG'', ''THIS'', ''THAT''])
      @ [''@SP'', ''D=M'', ''@'' @ str_int (n_args + 5), ''D=D-A'', ''@ARG'', ''M=D'']
      @ [''@SP'', ''D=M'', ''@LCL'', ''M=D'']
      @ [''@'' @ function_name, ''0;JMP'']
      @ [''('' @ return_label @ '')'']), g'))"

text \<open>One iteration of the loop over \<open>[(1, 'THAT'), (2, 'THIS'), (3, 'ARG'), (4, 'LCL')]\<close>
  in \<open>generate_return\<close>.\<close>

definition restore_segment :: "int \<times> string \<Rightarrow> string list" where
  "restore_segment os = (case os of (offset, segment) \<Rightarrow>
     [''@R13'', ''D=M'', ''@'' @ str_int offset, ''A=D-A'', ''D=M'', ''@'' @ segment, ''M=D''])"

definition generate_return :: string where
  "generate_return = text_of (
      [''// return'']
    @ [''@LCL'', ''D=M'', ''@R13'', ''M=D          // R13 = FRAME'']
    @ [''@5'', ''A=D-A        // A = FRAME - 5'', ''D=M          // D = *(FRAME - 5)'',
       ''@R14'', ''M=D          // R14 = RET (return address)'']
    @ [''@SP'', ''M=M-1'', ''A=M'', ''D=M          // D = return value'',
       ''@ARG'', ''A=M'', ''M=D          // *ARG = return value'']
    @ [''@ARG'', ''D=M+1'', ''@SP'', ''M=D'']
    @ concat (map restore_segment [(1, ''THAT''), (2, ''THIS''), (3, ''ARG''), (4, ''LCL'')])
    @ [''@R14'', ''A=M'', ''0;JMP''])"

text \<open>
  \<open>generate\<close>: the text (or Python's \<open>None\<close> where the called method falls off its
  end) and the generator's state afterwards; \<open>Inl\<close> where the method raises.
\<close>

fun generate :: "gen_state \<Rightarrow> command \<Rightarrow> error + (string option \<times> gen_state)" where
  "generate g (Arithmetic operation) = Inr (generate_arithmetic g operation)"
| "generate g (Push segment index) = Inr (generate_push g segment index, g)"
| "generate g (Pop segment index) =
     (case generate_pop g segment index of Inl e \<Rightarrow> Inl e | Inr asm \<Rightarrow> Inr (asm, g))"
| "generate g (Label label) = Inr (Some (generate_label g label), g)"
| "generate g (Goto label) = Inr (Some (generate_goto g label), g)"
| "generate g (IfGoto label) = Inr (Some (generate_if_goto g label), g)"
| "generate g (Function name n_locals) =
     (case generate_function g name n_locals of (asm, g') \<Rightarrow> Inr (Some asm, g'))"
| "generate g (Call name n_args) =
     (case generate_call g name n_args of (asm, g') \<Rightarrow> Inr (Some asm, g'))"
| "generate g Return = Inr (Some generate_return, g)"

section \<open>The translator (\<open>08_vm_part2/vm_translator.py\<close>)\<close>

text \<open>
  A translator holds the paths of its input files and one code generator. Reading a
  file is outside the model: each path comes with the lines \<open>readlines()\<close> returns
  for it. \<open>out.write(asm)\<close> appends to the text written so far; writing \<open>None\<close>
  raises \<open>TypeError\<close>.
\<close>

record translator =
  vm_files :: "(string \<times> string list) list"
  code_gen :: gen_state

definition VMTranslator_init :: "(string \<times> string list) list \<Rightarrow> translator" where
  "VMTranslator_init files = \<lparr>vm_files = files, code_gen = CodeGenerator_init None\<rparr>"

text \<open>The loop \<open>while parser.has_more_commands(): ...\<close> over one file.\<close>

function translate_loop :: "gen_state \<Rightarrow> parser \<Rightarrow> string \<Rightarrow> error + (gen_state \<times> string)" where
  "translate_loop g p out =
    (if has_more_commands p then
       (case advance p of
          Inl e \<Rightarrow> Inl e
        | Inr p' \<Rightarrow>
           (case current_command p' of
              None \<Rightarrow> translate_loop g p' out
            | Some c \<Rightarrow>
               (case generate g c of
                  Inl e \<Rightarrow> Inl e
                | Inr (None, g') \<Rightarrow> Inl TypeError
                | Inr (Some asm, g') \<Rightarrow> translate_loop g' p' (out @ asm))))
     else Inr (g, out))"
  by pat_completeness auto
termination
  by (relation "measure (\<lambda>(g, p, out). length (lines p) - current_line p)")
     (auto dest!: advance_progress_lines)

declare translate_loop.simps [simp del]

text \<open>The loop \<open>for vm_file in self.vm_files: ...\<close>.\<close>

fun translate_files :: "gen_state \<Rightarrow> (string \<times> string list) list \<Rightarrow> string
    \<Rightarrow> error + (gen_state \<times> string)" where
  "translate_files g [] out = Inr (g, out)"
| "translate_files g ((vm_file, ls) # rest) out =
    (let filename = basename vm_file;
         g1 = g\<lparr>current_file := remove_vm filename\<rparr>;
         out1 = out @ nl @ ''// ===== File: '' @ filename @ '' ====='' @ nl
     in case translate_loop g1 (Parser_init ls) out1 of
          Inl e \<Rightarrow> Inl e
        | Inr (g2, out2) \<Rightarrow> translate_files g2 rest out2)"

text \<open>\<open>translate\<close>: the text written to the output file and the translator afterwards.\<close>

definition translate :: "translator \<Rightarrow> error + (translator \<times> string)" where
  "translate t =
    (case translate_files (code_gen t) (vm_files t) init of
       Inl e \<Rightarrow> Inl e
     | Inr (g, out) \<Rightarrow> Inr (t\<lparr>code_gen := g\<rparr>, out))"

section \<open>The assembler (\<open>06_assembler/assembler.py\<close>)\<close>

text \<open>
  A dictionary with string keys, as the list of its items (a new key is put in front);
  \<open>lookup\<close> is \<open>d.get(k)\<close>.
\<close>

fun lookup :: "(string \<times> 'a) list \<Rightarrow> string \<Rightarrow> 'a option" where
  "lookup [] k = None"
| "lookup ((l, v) # ps) k = (if l = k then Some v else lookup ps k)"

type_synonym symbols = "(string \<times> nat) list"

definition SymbolTable_init :: symbols where
  "SymbolTable_init =
     [(''R0'', 0), (''R1'', 1), (''R2'', 2), (''R3'', 3), (''R4'', 4),
      (''R5'', 5), (''R6'', 6), (''R7'', 7), (''R8'', 8), (''R9'', 9),
      (''R10'', 10), (''R11'', 11), (''R12'', 12), (''R13'', 13),
      (''R14'', 14), (''R15'', 15),
      (''SP'', 0), (''LCL'', 1), (''ARG'', 2), (''THIS'', 3), (''THAT'', 4),
      (''SCREEN'', 16384), (''KBD'', 24576)]"

text \<open>
  \<open>f.readlines()\<close> on a text: the lines, each with its newline. (The file is the one
  the translator wrote; other line endings are not modelled.)
\<close>

fun readlines_from :: "string \<Rightarrow> string \<Rightarrow> string list" where
  "readlines_from cur [] = (if cur = [] then [] else [cur])"
| "readlines_from cur (c # cs) =
     (if c = CHR 0x0A then (cur @ [c]) # readlines_from [] cs
      else readlines_from (cur @ [c]) cs)"

definition readlines :: "string \<Rightarrow> string list" where
  "readlines text = readlines_from [] text"

text \<open>\<open>s.split(c)\<close> for a separator of one character.\<close>

fun split_on :: "char \<Rightarrow> string \<Rightarrow> string list" where
  "split_on c [] = [[]]"
| "split_on c (x # xs) =
     (if x = c then [] # split_on c xs
      else (case split_on c xs of [] \<Rightarrow> [[x]] | y # ys \<Rightarrow> (x # y) # ys))"

text \<open>The assembler's \<open>Parser\<close>: \<open>Parser.__init__\<close> strips every line.\<close>

definition asm_lines :: "string \<Rightarrow> string list" where
  "asm_lines text = map strip (readlines text)"

definition current_instruction :: "string \<Rightarrow> string" where
  "current_instruction line = strip (before_slashes line)"

datatype itype = A_type | L_type | C_type

definition instruction_type :: "string \<Rightarrow> itype option" where
  "instruction_type instruction =
    (if instruction = [] then None
     else if startswith instruction ''@'' then Some A_type
     else if startswith instruction ''('' \<and> last instruction = CHR '')'' then Some L_type
     else Some C_type)"

definition symbol :: "string \<Rightarrow> error + string" where
  "symbol instruction =
    (if startswith instruction ''@'' then Inr (tl instruction)
     else if startswith instruction ''('' then Inr (butlast (tl instruction))
     else Inl (ValueError ''Not an A-instruction or label''))"

definition dest :: "string \<Rightarrow> string" where
  "dest instruction =
    (if CHR ''='' \<in> set instruction then strip (split_on CHR ''='' instruction ! 0) else [])"

definition comp_field :: "string \<Rightarrow> string" where
  "comp_field instruction =
    (let i1 = (if CHR ''='' \<in> set instruction then split_on CHR ''='' instruction ! 1
               else instruction);
         i2 = (if CHR '';'' \<in> set i1 then split_on CHR '';'' i1 ! 0 else i1)
     in strip i2)"

definition jump :: "string \<Rightarrow> string" where
  "jump instruction =
    (if CHR '';'' \<in> set instruction then strip (split_on CHR '';'' instruction ! 1) else [])"

text \<open>The assembler's \<open>CodeGenerator\<close>: the three tables and the two encoders.\<close>

definition comp_table :: "(string \<times> string) list" where
  "comp_table =
     [(''0'', ''0101010''), (''1'', ''0111111''), (''-1'', ''0111010''),
      (''D'', ''0001100''), (''A'', ''0110000''), (''!D'', ''0001101''),
      (''!A'', ''0110001''), (''-D'', ''0001111''), (''-A'', ''0110011''),
      (''D+1'', ''0011111''), (''A+1'', ''0110111''), (''D-1'', ''0001110''),
      (''A-1'', ''0110010''), (''D+A'', ''0000010''), (''D-A'', ''0010011''),
      (''A-D'', ''0000111''), (''D&A'', ''0000000''), (''D|A'', ''0010101''),
      (''M'', ''1110000''), (''!M'', ''1110001''), (''-M'', ''1110011''),
      (''M+1'', ''1110111''), (''M-1'', ''1110010''), (''D+M'', ''1000010''),
      (''D-M'', ''1010011''), (''M-D'', ''1000111''), (''D&M'', ''1000000''),
      (''D|M'', ''1010101'')]"

definition dest_table :: "(string \<times> string) list" where
  "dest_table =
     [([], ''000''), (''M'', ''001''), (''D'', ''010''), (''MD'', ''011''),
      (''A'', ''100''), (''AM'', ''101''), (''AD'', ''110''), (''AMD'', ''111'')]"

definition jump_table :: "(string \<times> string) list" where
  "jump_table =
     [([], ''000''), (''JGT'', ''001''), (''JEQ'', ''010''), (''JGE'', ''011''),
      (''JLT'', ''100''), (''JNE'', ''101''), (''JLE'', ''110''), (''JMP'', ''111'')]"

text \<open>\<open>format(address, '015b')\<close>: binary digits, padded with zeros to fifteen.\<close>

fun bin_str :: "nat \<Rightarrow> string" where
  "bin_str n = (if n < 2 then [digit_char n] else bin_str (n div 2) @ [digit_char (n mod 2)])"

definition format_015b :: "nat \<Rightarrow> string" where
  "format_015b n = replicate (15 - length (bin_str n)) CHR ''0'' @ bin_str n"

definition generate_a_instruction :: "nat \<Rightarrow> string" where
  "generate_a_instruction address = ''0'' @ format_015b address"

definition generate_c_instruction :: "string \<Rightarrow> string \<Rightarrow> string \<Rightarrow> error + string" where
  "generate_c_instruction d c j =
    (case lookup comp_table c of
       None \<Rightarrow> Inl (ValueError ''Invalid mnemonic'')
     | Some comp_bits \<Rightarrow>
        (case lookup dest_table d of
           None \<Rightarrow> Inl (ValueError ''Invalid mnemonic'')
         | Some dest_bits \<Rightarrow>
            (case lookup jump_table j of
               None \<Rightarrow> Inl (ValueError ''Invalid mnemonic'')
             | Some jump_bits \<Rightarrow> Inr (''111'' @ comp_bits @ dest_bits @ jump_bits))))"

text \<open>\<open>_is_valid_symbol\<close>\<close>

definition is_valid_symbol :: "string \<Rightarrow> bool" where
  "is_valid_symbol s =
    (if s = [] then False
     else if isdigit (hd s) then False
     else list_all (\<lambda>c. c \<in> set
       ''abcdefghijklmnopqrstuvwxyzABCDEFGHIJKLMNOPQRSTUVWXYZ0123456789_.$:'') s)"

text \<open>
  \<open>symbol.isdigit()\<close>: every character is a digit and there is at least one. Besides
  \<open>0\<close> to \<open>9\<close> Python counts the superscripts one, two and three as digits; \<open>int\<close>
  then rejects them.
\<close>

definition str_isdigit :: "string \<Rightarrow> bool" where
  "str_isdigit s = (s \<noteq> [] \<and>
     list_all (\<lambda>c. isdigit c \<or> c \<in> set [CHR 0xB2, CHR 0xB3, CHR 0xB9]) s)"

text \<open>
  The first pass, from one line to the next: the symbol table and the address of the
  next instruction. Every failure is an \<open>AssemblerError\<close>; its message (the line
  number and the reason) is not modelled.
\<close>

definition first_pass_line :: "symbols \<times> nat \<Rightarrow> string \<Rightarrow> error + symbols \<times> nat" where
  "first_pass_line st line =
    (case st of (symbols, instruction_address) \<Rightarrow>
      let instruction = current_instruction line in
      if instruction = [] then Inr st
      else if instruction_type instruction = Some L_type then
        (case symbol instruction of
           Inl e \<Rightarrow> Inl (AssemblerError [])
         | Inr label \<Rightarrow>
             if \<not> is_valid_symbol label then Inl (AssemblerError [])
             else if lookup symbols label \<noteq> None then Inl (AssemblerError [])
             else Inr ((label, instruction_address) # symbols, instruction_address))
      else Inr (symbols, instruction_address + 1))"

fun first_pass :: "symbols \<times> nat \<Rightarrow> string list \<Rightarrow> error + symbols \<times> nat" where
  "first_pass st [] = Inr st"
| "first_pass st (line # rest) =
     (case first_pass_line st line of Inl e \<Rightarrow> Inl e | Inr st' \<Rightarrow> first_pass st' rest)"

text \<open>
  The second pass, from one line to the next: the symbol table, the address of the next
  variable and the binary code so far.
\<close>

definition second_pass_line :: "symbols \<times> nat \<times> string list \<Rightarrow> string
    \<Rightarrow> error + symbols \<times> nat \<times> string list" where
  "second_pass_line st line =
    (case st of (symbols, next_variable_address, binary_code) \<Rightarrow>
      let instruction = current_instruction line in
      if instruction = [] then Inr st
      else if instruction_type instruction = Some A_type then
        (case symbol instruction of
           Inl e \<Rightarrow> Inl (AssemblerError [])
         | Inr name \<Rightarrow>
            if str_isdigit name then
              (case py_int name of
                 None \<Rightarrow> Inl (AssemblerError [])
               | Some address \<Rightarrow>
                   if address < 0 \<or> address > 32767 then Inl (AssemblerError [])
                   else Inr (symbols, next_variable_address,
                             binary_code @ [generate_a_instruction (nat address)]))
            else (case lookup symbols name of
                Some address \<Rightarrow>
                  Inr (symbols, next_variable_address,
                       binary_code @ [generate_a_instruction address])
              | None \<Rightarrow>
                  if \<not> is_valid_symbol name then Inl (AssemblerError [])
                  else Inr ((name, next_variable_address) # symbols, next_variable_address + 1,
                            binary_code @ [generate_a_instruction next_variable_address])))
      else if instruction_type instruction = Some C_type then
        (case generate_c_instruction (dest instruction) (comp_field instruction) (jump instruction) of
           Inl e \<Rightarrow> Inl (AssemblerError [])
         | Inr binary \<Rightarrow> Inr (symbols, next_variable_address, binary_code @ [binary]))
      else Inr st)"

fun second_pass :: "symbols \<times> nat \<times> string list \<Rightarrow> string list
    \<Rightarrow> error + symbols \<times> nat \<times> string list" where
  "second_pass st [] = Inr st"
| "second_pass st (line # rest) =
     (case second_pass_line st line of Inl e \<Rightarrow> Inl e | Inr st' \<Rightarrow> second_pass st' rest)"

text \<open>\<open>Assembler().assemble\<close> on the text of the input file: the binary code.\<close>

definition assemble :: "string \<Rightarrow> error + string list" where
  "assemble text =
    (case first_pass (SymbolTable_init, 0) (asm_lines text) of
       Inl e \<Rightarrow> Inl e
     | Inr (symbols, n) \<Rightarrow>
        (case second_pass (symbols, 16, []) (asm_lines text) of
           Inl e \<Rightarrow> Inl e
         | Inr (symbols', next_variable_address, binary_code) \<Rightarrow> Inr binary_code))"

section \<open>The CPU (\<open>05_computer_architecture\<close>: \<open>alu.py\<close>, \<open>ram.py\<close>, \<open>rom.py\<close>, \<open>cpu.py\<close>)\<close>

text \<open>
  The registers \<open>A\<close> and \<open>D\<close> and the words of the RAM hold values from 0 to 65535
  (the ALU masks every result and the RAM every word written), so they are 16-bit
  words here. \<open>to_signed\<close> and \<open>to_unsigned\<close> are the ALU's two helpers.
\<close>

type_synonym word16 = "16 word"

definition to_signed :: "word16 \<Rightarrow> int" where
  "to_signed val = sint val"

definition to_unsigned :: "int \<Rightarrow> word16" where
  "to_unsigned val = word_of_int val"

text \<open>\<open>ALU.compute\<close>; an opcode outside the table raises \<open>KeyError\<close>.\<close>

definition compute :: "nat \<Rightarrow> word16 \<Rightarrow> word16 \<Rightarrow> error + word16" where
  "compute comp_bits d a =
    (if comp_bits = 42 then Inr (to_unsigned 0)
     else if comp_bits = 63 then Inr (to_unsigned 1)
     else if comp_bits = 58 then Inr (to_unsigned (- 1))
     else if comp_bits = 12 then Inr (to_unsigned (uint d))
     else if comp_bits = 48 then Inr (to_unsigned (uint a))
     else if comp_bits = 13 then Inr (to_unsigned (NOT (uint d)))
     else if comp_bits = 49 then Inr (to_unsigned (NOT (uint a)))
     else if comp_bits = 15 then Inr (to_unsigned (- to_signed d))
     else if comp_bits = 51 then Inr (to_unsigned (- to_signed a))
     else if comp_bits = 31 then Inr (to_unsigned (to_signed d + 1))
     else if comp_bits = 55 then Inr (to_unsigned (to_signed a + 1))
     else if comp_bits = 14 then Inr (to_unsigned (to_signed d - 1))
     else if comp_bits = 50 then Inr (to_unsigned (to_signed a - 1))
     else if comp_bits = 2 then Inr (to_unsigned (to_signed d + to_signed a))
     else if comp_bits = 19 then Inr (to_unsigned (to_signed d - to_signed a))
     else if comp_bits = 7 then Inr (to_unsigned (to_signed a - to_signed d))
     else if comp_bits = 0 then Inr (to_unsigned (uint d AND uint a))
     else if comp_bits = 21 then Inr (to_unsigned (uint d OR uint a))
     else Inl KeyError)"

text \<open>The RAM and the ROM have 32768 words each; a read out of range gives 0, a write
  out of range does nothing.\<close>

definition ram_size :: nat where
  "ram_size = 32768"

definition rom_size :: nat where
  "rom_size = 32768"

record cpu =
  A :: word16
  D :: word16
  PC :: nat
  ram :: "nat \<Rightarrow> word16"

definition ram_read :: "cpu \<Rightarrow> nat \<Rightarrow> word16" where
  "ram_read s address = (if address < ram_size then ram s address else 0)"

definition ram_write :: "cpu \<Rightarrow> nat \<Rightarrow> word16 \<Rightarrow> cpu" where
  "ram_write s address v = (if address < ram_size then s\<lparr>ram := (ram s)(address := v)\<rparr> else s)"

text \<open>\<open>int(s, 2)\<close> on a string of binary digits.\<close>

fun int2_from :: "nat \<Rightarrow> string \<Rightarrow> nat option" where
  "int2_from acc [] = Some acc"
| "int2_from acc (c # cs) =
     (if c = CHR ''0'' then int2_from (2 * acc) cs
      else if c = CHR ''1'' then int2_from (2 * acc + 1) cs
      else None)"

definition int2 :: "string \<Rightarrow> error + nat" where
  "int2 s = (if s = [] then Inl (ValueError ''invalid literal for int() with base 2'')
     else case int2_from 0 s of
       None \<Rightarrow> Inl (ValueError ''invalid literal for int() with base 2'')
     | Some n \<Rightarrow> Inr n)"

text \<open>\<open>ROM.load_program\<close>: the words of the program, the rest of the ROM staying 0.\<close>

fun load_program :: "string list \<Rightarrow> error + nat list" where
  "load_program [] = Inr []"
| "load_program (b # bs) =
     (case int2 b of
        Inl e \<Rightarrow> Inl e
      | Inr w \<Rightarrow> (case load_program bs of Inl e \<Rightarrow> Inl e | Inr ws \<Rightarrow> Inr (w # ws)))"

definition fetch :: "nat list \<Rightarrow> nat \<Rightarrow> nat" where
  "fetch rom address =
    (if address < rom_size then (if address < length rom then rom ! address else 0) else 0)"

definition should_jump :: "nat \<Rightarrow> word16 \<Rightarrow> bool" where
  "should_jump jump_bits val =
    (if jump_bits = 0 then False
     else if jump_bits = 7 then True
     else
      (let is_negative = (val AND 0x8000 \<noteq> 0);
           is_zero = (val = 0);
           is_positive = (\<not> is_negative \<and> \<not> is_zero)
       in if jump_bits = 1 then is_positive
          else if jump_bits = 2 then is_zero
          else if jump_bits = 3 then \<not> is_negative
          else if jump_bits = 4 then is_negative
          else if jump_bits = 5 then \<not> is_zero
          else if jump_bits = 6 then is_negative \<or> is_zero
          else False))"

definition execute_a_instruction :: "nat \<Rightarrow> cpu \<Rightarrow> cpu" where
  "execute_a_instruction instruction s =
     s\<lparr>A := of_nat (instruction mod 32768), PC := PC s + 1\<rparr>"

definition execute_c_instruction :: "nat \<Rightarrow> cpu \<Rightarrow> error + cpu" where
  "execute_c_instruction instruction s =
    (let a_bit = (instruction div 4096) mod 2;
         comp_bits = (instruction div 64) mod 64;
         dest_bits = (instruction div 8) mod 8;
         jump_bits = instruction mod 8;
         y = (if a_bit \<noteq> 0 then ram_read s (unat (A s)) else A s)
     in case compute comp_bits (D s) y of
          Inl e \<Rightarrow> Inl e
        | Inr result \<Rightarrow>
           (let s1 = (if (dest_bits div 4) mod 2 \<noteq> 0 then s\<lparr>A := result\<rparr> else s);
                s2 = (if (dest_bits div 2) mod 2 \<noteq> 0 then s1\<lparr>D := result\<rparr> else s1);
                s3 = (if dest_bits mod 2 \<noteq> 0 then ram_write s2 (unat (A s2)) result else s2)
            in Inr (if should_jump jump_bits result then s3\<lparr>PC := unat (A s3)\<rparr>
                    else s3\<lparr>PC := PC s3 + 1\<rparr>)))"

text \<open>\<open>CPU.step\<close>: the flag says whether execution continues (\<open>False\<close> at the halt
  word 0xFFFF).\<close>

definition step :: "nat list \<Rightarrow> cpu \<Rightarrow> error + bool \<times> cpu" where
  "step rom s =
    (let instruction = fetch rom (PC s) in
     if instruction = 65535 then Inr (False, s)
     else if (instruction div 32768) mod 2 \<noteq> 0 then
       (case execute_c_instruction instruction s of Inl e \<Rightarrow> Inl e | Inr s' \<Rightarrow> Inr (True, s'))
     else Inr (True, execute_a_instruction instruction s))"

text \<open>\<open>CPU.run(max_cycles)\<close>: the state of the CPU when the loop ends.\<close>

fun run :: "nat \<Rightarrow> nat list \<Rightarrow> cpu \<Rightarrow> error + cpu" where
  "run 0 rom s = Inr s"
| "run (Suc n) rom s =
    (if PC s \<ge> rom_size then Inr s
     else case step rom s of
            Inl e \<Rightarrow> Inl e
          | Inr (continue_execution, s') \<Rightarrow>
              if \<not> continue_execution then Inr s' else run n rom s')"

text \<open>\<open>CPU.reset()\<close> on a new CPU.\<close>

definition reset :: cpu where
  "reset = \<lparr>A = 0, D = 0, PC = 0, ram = (\<lambda>a. 0)\<rparr>"

text \<open>
  \<open>run_vm_program\<close> of the test suite (\<open>08_vm_part2/test_vm_translator.py\<close>):
  translate, assemble, load the binary, reset and run.
\<close>

definition run_vm_program :: "(string \<times> string list) list \<Rightarrow> nat \<Rightarrow> error + cpu" where
  "run_vm_program files max_cycles =
    (case translate (VMTranslator_init files) of
       Inl e \<Rightarrow> Inl e
     | Inr (t, asm) \<Rightarrow>
        (case assemble asm of
           Inl e \<Rightarrow> Inl e
         | Inr binary \<Rightarrow>
            (case load_program (map strip binary) of
               Inl e \<Rightarrow> Inl e
             | Inr rom \<Rightarrow> run max_cycles rom reset)))"

section \<open>Notions used to state the properties\<close>

text \<open>
  The labels an assembly text declares, as the assembler's first pass reads them, and
  among them the labels the comparison commands mint.
\<close>

definition label_declarations :: "string \<Rightarrow> string list" where
  "label_declarations text = concat (map (\<lambda>line.
      let instruction = current_instruction line in
      if instruction_type instruction = Some L_type
      then (case symbol instruction of Inr l \<Rightarrow> [l] | Inl e \<Rightarrow> []) else [])
    (asm_lines text))"

definition comparison_labels :: "string \<Rightarrow> string list" where
  "comparison_labels text =
     filter (\<lambda>l. startswith l ''TRUE_'' \<or> startswith l ''END_'') (label_declarations text)"

text \<open>
  Two runs one after the other, each with a translator of its own built by
  \<open>VMTranslator.__init__\<close>: the two texts written.
\<close>

definition translate_twice :: "(string \<times> string list) list \<Rightarrow> error + string \<times> string" where
  "translate_twice files =
    (case translate (VMTranslator_init files) of
       Inl e \<Rightarrow> Inl e
     | Inr (t1, out1) \<Rightarrow>
        (case translate (VMTranslator_init files) of
           Inl e \<Rightarrow> Inl e
         | Inr (t2, out2) \<Rightarrow> Inr (out1, out2)))"

text \<open>
  The words the assembler's second pass and the loader produce for a part of an assembly
  text, given the symbol table and the next variable address reached before it. (The
  second pass goes through the lines one by one, so the words of a whole program are
  those of its parts in sequence.)
\<close>

definition block_words :: "symbols \<Rightarrow> nat \<Rightarrow> string \<Rightarrow> error + nat list" where
  "block_words symbols nv text =
    (case second_pass (symbols, nv, []) (asm_lines text) of
       Inl e \<Rightarrow> Inl e
     | Inr (symbols', nv', binary) \<Rightarrow> load_program (map strip binary))"

text \<open>The ROM holds the words \<open>ws\<close> from address \<open>p\<close> on.\<close>

definition code_at :: "nat list \<Rightarrow> nat \<Rightarrow> nat list \<Rightarrow> bool" where
  "code_at rom p ws =
     (p + length ws \<le> rom_size \<and> (\<forall>i < length ws. fetch rom (p + i) = ws ! i))"

text \<open>
  What \<open>step\<close> does with an instruction word that is not the halt word, and a sequence
  of words executed one after the other; \<open>straight\<close> words do not jump.
\<close>

definition exec_word :: "nat \<Rightarrow> cpu \<Rightarrow> error + cpu" where
  "exec_word w s =
    (if (w div 32768) mod 2 \<noteq> 0 then execute_c_instruction w s
     else Inr (execute_a_instruction w s))"

fun exec_seq :: "nat list \<Rightarrow> cpu \<Rightarrow> error + cpu" where
  "exec_seq [] s = Inr s"
| "exec_seq (w # ws) s = (case exec_word w s of Inl e \<Rightarrow> Inl e | Inr s' \<Rightarrow> exec_seq ws s')"

definition straight :: "nat \<Rightarrow> bool" where
  "straight w = (w \<noteq> 65535 \<and> ((w div 32768) mod 2 = 0 \<or> w mod 8 = 0))"

section \<open>Decimal numerals\<close>

declare str_nat.simps [simp del]

lemma digit_char_cases:
  "d < 10 \<Longrightarrow> digit_char d \<in> set ''0123456789''"
  unfolding digit_char_def by (rule nth_mem) simp

lemma isdigit_digit_char: "d < 10 \<Longrightarrow> isdigit (digit_char d)"
  using digit_char_cases by (simp add: isdigit_def)

lemma digit_val_digit_char: "d < 10 \<Longrightarrow> digit_val (digit_char d) = d"
proof -
  assume "d < 10"
  then have "d \<in> {0,1,2,3,4,5,6,7,8,9}" by auto
  then show ?thesis
    by (auto simp: digit_val_def digit_char_def)
qed

lemma str_nat_digits: "\<forall>c \<in> set (str_nat n). isdigit c"
proof (induction n rule: str_nat.induct)
  case (1 n)
  show ?case
  proof (cases "n < 10")
    case True
    then show ?thesis by (subst str_nat.simps) (simp add: isdigit_digit_char)
  next
    case False
    with "1.IH" show ?thesis by (subst str_nat.simps) (simp add: isdigit_digit_char)
  qed
qed

lemma str_nat_nonempty: "str_nat n \<noteq> []"
  by (subst str_nat.simps) simp

lemma int_digits_append:
  "\<forall>c \<in> set xs. isdigit c \<Longrightarrow> isdigit d \<Longrightarrow>
     int_digits acc b (xs @ [d]) = map_option (\<lambda>v. 10 * v + digit_val d) (int_digits acc True xs)"
  by (induction xs arbitrary: acc b) auto

lemma int_digits_str_nat: "int_digits 0 b (str_nat n) = Some n"
proof (induction n arbitrary: b rule: str_nat.induct)
  case (1 n)
  show ?case
  proof (cases "n < 10")
    case True
    then show ?thesis
      by (subst str_nat.simps) (simp add: isdigit_digit_char digit_val_digit_char)
  next
    case False
    have "int_digits 0 b (str_nat (n div 10) @ [digit_char (n mod 10)])
        = map_option (\<lambda>v. 10 * v + digit_val (digit_char (n mod 10)))
            (int_digits 0 True (str_nat (n div 10)))"
      by (rule int_digits_append) (simp_all add: str_nat_digits isdigit_digit_char)
    with False "1.IH" [OF False, of True] show ?thesis
      by (subst str_nat.simps) (simp add: digit_val_digit_char)
  qed
qed

lemma str_nat_inject:
  assumes "str_nat m = str_nat n"
  shows "m = n"
proof -
  have "Some m = int_digits 0 True (str_nat m)" by (simp add: int_digits_str_nat)
  also have "\<dots> = int_digits 0 True (str_nat n)" by (simp only: assms)
  also have "\<dots> = Some n" by (simp add: int_digits_str_nat)
  finally show ?thesis by simp
qed

lemma isdigit_not_space: "isdigit c \<Longrightarrow> \<not> isspace c"
  by (auto simp: isdigit_def isspace_def)

lemma dropWhile_id: "s \<noteq> [] \<Longrightarrow> \<not> P (hd s) \<Longrightarrow> dropWhile P s = s"
  by (cases s) simp_all

lemma strip_id: "s \<noteq> [] \<Longrightarrow> \<not> isspace (hd s) \<Longrightarrow> \<not> isspace (last s) \<Longrightarrow> strip s = s"
  by (simp add: strip_def dropWhile_id hd_rev)

lemma str_nat_hd: "isdigit (hd (str_nat n))"
  using str_nat_digits [of n] str_nat_nonempty [of n] by (cases "str_nat n") auto

lemma str_nat_last: "isdigit (last (str_nat n))"
  using str_nat_digits [of n] str_nat_nonempty [of n]
  by (cases "str_nat n" rule: rev_cases) auto

lemma strip_str_nat: "strip (str_nat n) = str_nat n"
  by (rule strip_id) (simp_all add: str_nat_nonempty isdigit_not_space str_nat_hd str_nat_last)

lemma str_nat_hd_not_sign: "hd (str_nat n) \<noteq> CHR ''-'' \<and> hd (str_nat n) \<noteq> CHR ''+''"
  using str_nat_hd [of n] by (auto simp: isdigit_def)

lemma py_int_str_nat: "py_int (str_nat n) = Some (int n)"
proof -
  obtain c cs where c: "str_nat n = c # cs"
    using str_nat_nonempty [of n] by (cases "str_nat n") auto
  have "py_int (str_nat n) = map_option int (int_digits 0 False (str_nat n))"
    using str_nat_hd_not_sign [of n] unfolding py_int_def strip_str_nat by (simp add: c)
  then show ?thesis by (simp add: int_digits_str_nat)
qed

lemma py_int_str_int: "py_int (str_int i) = Some i"
proof (cases "i < 0")
  case True
  have m: "\<not> isspace CHR ''-''" by (simp add: isspace_def)
  have "strip (CHR ''-'' # str_nat (nat (- i))) = CHR ''-'' # str_nat (nat (- i))"
    by (rule strip_id) (simp_all add: m str_nat_nonempty isdigit_not_space str_nat_last)
  with True show ?thesis
    by (simp add: py_int_def str_int_def int_digits_str_nat)
next
  case False
  then show ?thesis by (simp add: str_int_def py_int_str_nat)
qed

section \<open>The parser accepts what \<open>int\<close> accepts\<close>

lemma parse_push_iff:
  "(parse_command line = Inr (Push seg i)) =
     (\<exists>idx rest. split_ws line = ''push'' # seg # idx # rest \<and> py_int idx = Some i)"
proof (cases "split_ws line")
  case Nil
  then show ?thesis by (simp add: parse_command_def part_def)
next
  case (Cons a as)
  note c1 = this
  show ?thesis
  proof (cases as)
    case Nil
    with c1 show ?thesis by (auto simp: parse_command_def part_def int_part_def Let_def)
  next
    case (Cons b bs)
    note c2 = this
    show ?thesis
    proof (cases bs)
      case Nil
      with c1 c2 show ?thesis by (auto simp: parse_command_def part_def int_part_def Let_def)
    next
      case (Cons c cs)
      with c1 c2 show ?thesis
        by (auto simp: parse_command_def part_def int_part_def Let_def split: option.splits)
    qed
  qed
qed

lemma parse_pop_iff:
  "(parse_command line = Inr (Pop seg i)) =
     (\<exists>idx rest. split_ws line = ''pop'' # seg # idx # rest \<and> py_int idx = Some i)"
proof (cases "split_ws line")
  case Nil
  then show ?thesis by (simp add: parse_command_def part_def)
next
  case (Cons a as)
  note c1 = this
  show ?thesis
  proof (cases as)
    case Nil
    with c1 show ?thesis by (auto simp: parse_command_def part_def int_part_def Let_def)
  next
    case (Cons b bs)
    note c2 = this
    show ?thesis
    proof (cases bs)
      case Nil
      with c1 c2 show ?thesis by (auto simp: parse_command_def part_def int_part_def Let_def)
    next
      case (Cons c cs)
      with c1 c2 show ?thesis
        by (auto simp: parse_command_def part_def int_part_def Let_def split: option.splits)
    qed
  qed
qed

lemma parse_unknown_opcode:
  "split_ws line = opc # rest \<Longrightarrow>
   opc \<notin> set [''add'', ''sub'', ''neg'', ''eq'', ''gt'', ''lt'', ''and'', ''or'', ''not'',
     ''push'', ''pop'', ''label'', ''goto'', ''if-goto'', ''function'', ''call'', ''return''] \<Longrightarrow>
   parse_command line = Inl (ValueError (''Unknown command: '' @ opc))"
  by (simp add: parse_command_def part_def Let_def)

lemma parse_push_pop_missing:
  "opc = ''push'' \<or> opc = ''pop'' \<Longrightarrow> split_ws line = [opc] \<or> split_ws line = [opc, seg] \<Longrightarrow>
   parse_command line = Inl IndexError"
  by (auto simp: parse_command_def part_def int_part_def Let_def)

lemma parse_push_pop_not_int:
  "opc = ''push'' \<or> opc = ''pop'' \<Longrightarrow> split_ws line = opc # seg # idx # rest \<Longrightarrow>
   py_int idx = None \<Longrightarrow>
   parse_command line = Inl (ValueError (''invalid literal for int() with base 10: '' @ idx))"
  by (auto simp: parse_command_def part_def int_part_def Let_def)

section \<open>The claims about parsing and generation\<close>

text \<open>
  Claim C8. For every index, \<open>generate_pop\<close> with segment \<open>constant\<close> raises an error
  and returns no assembly, also through \<open>generate\<close>; \<open>generate_push\<close> with segment
  \<open>constant\<close> returns the seven instructions that load the literal into \<open>D\<close>, store it
  at the address held in \<open>SP\<close> and increment \<open>SP\<close>.
\<close>

theorem pop_constant_raises_push_constant_generates:
  "generate_pop g ''constant'' index = Inl (ValueError ''Cannot pop to constant segment'')
   \<and> generate g (Pop ''constant'' index) = Inl (ValueError ''Cannot pop to constant segment'')
   \<and> generate g (Push ''constant'' index) = Inr (Some (text_of
         [''// push constant '' @ str_int index,
          ''@'' @ str_int index, ''D=A'', ''@SP'', ''A=M'', ''M=D'', ''@SP'', ''M=M+1'']), g)"
  by (simp add: generate_pop_def generate_push_def)

text \<open>
  Claim C10. With segment \<open>pointer\<close>, every index other than 0 addresses the \<open>THAT\<close>
  cell, in push and in pop, and no error is raised; index 0 addresses \<open>THIS\<close>.
\<close>

theorem pointer_index_nonzero_is_that:
  "(index \<noteq> 0 \<longrightarrow>
      generate g (Push ''pointer'' index) = Inr (Some (text_of
         [''// push pointer '' @ str_int index,
          ''@THAT'', ''D=M'', ''@SP'', ''A=M'', ''M=D'', ''@SP'', ''M=M+1'']), g)
    \<and> generate g (Pop ''pointer'' index) = Inr (Some (text_of
         [''// pop pointer '' @ str_int index,
          ''@SP'', ''M=M-1'', ''A=M'', ''D=M'', ''@THAT'', ''M=D'']), g))
   \<and> generate g (Push ''pointer'' 0) = Inr (Some (text_of
         [''// push pointer '' @ str_int 0,
          ''@THIS'', ''D=M'', ''@SP'', ''A=M'', ''M=D'', ''@SP'', ''M=M+1'']), g)
   \<and> generate g (Pop ''pointer'' 0) = Inr (Some (text_of
         [''// pop pointer '' @ str_int 0,
          ''@SP'', ''M=M-1'', ''A=M'', ''D=M'', ''@THIS'', ''M=D'']), g)"
  by (simp add: generate_pop_def generate_push_def)

theorem pointer_index_nonzero_is_that_witness:
  "(2::int) \<noteq> 0
   \<and> generate (CodeGenerator_init None) (Push ''pointer'' 2) = Inr (Some (text_of
         [''// push pointer '' @ str_int 2,
          ''@THAT'', ''D=M'', ''@SP'', ''A=M'', ''M=D'', ''@SP'', ''M=M+1'']), CodeGenerator_init None)
   \<and> generate (CodeGenerator_init None) (Pop ''pointer'' 2) = Inr (Some (text_of
         [''// pop pointer '' @ str_int 2,
          ''@SP'', ''M=M-1'', ''A=M'', ''D=M'', ''@THAT'', ''M=D'']), CodeGenerator_init None)"
  using pointer_index_nonzero_is_that [of 2 "CodeGenerator_init None"] by simp

text \<open>
  Claim C4, as stated, fails: with no function declared, generating a label raises
  nothing. The generator emits the label \<open>$LOOP\<close>, scoped by the empty function name.
\<close>

theorem label_without_function_counterexample:
  "generate (CodeGenerator_init None) (Label ''LOOP'')
     = Inr (Some ''// label LOOP\<newline>($LOOP)\<newline>'', CodeGenerator_init None)"
  by (simp add: generate_label_def CodeGenerator_init_def text_of_def nl_def)

text \<open>
  Claim C4, amended. Generating a label, goto or if-goto command never fails. The label
  is always rewritten to \<open><current function>$<label>\<close>, where the current function is the
  name given by the last \<open>function\<close> command, and the empty string before the first one.
\<close>

theorem labels_scoped_by_current_function:
  "generate g (Label label) = Inr (Some (text_of
       [''// label '' @ label, ''('' @ current_function g @ ''$'' @ label @ '')'']), g)
   \<and> generate g (Goto label) = Inr (Some (text_of
       [''// goto '' @ label, ''@'' @ current_function g @ ''$'' @ label, ''0;JMP'']), g)
   \<and> generate g (IfGoto label) = Inr (Some (text_of
       [''// if-goto '' @ label, ''@SP'', ''M=M-1'', ''A=M'', ''D=M'',
        ''@'' @ current_function g @ ''$'' @ label, ''D;JNE'']), g)
   \<and> current_function (CodeGenerator_init filename) = []
   \<and> (\<exists>asm. generate g (Function name n_locals) = Inr (Some asm, g\<lparr>current_function := name\<rparr>))"
  by (simp add: generate_label_def generate_goto_def generate_if_goto_def
      generate_function_def CodeGenerator_init_def)

text \<open>
  Claim C6, as stated, fails: the parser accepts a negative index.
\<close>

theorem parser_accepts_negative_index_counterexample:
  "parse_command ''push constant -1'' = Inr (Push ''constant'' (- 1))"
  by code_simp

text \<open>
  Claim C6, amended. The parser accepts a push or pop command exactly when the line has
  at least two operands and the second is an integer literal as \<open>int\<close> reads it, negative
  ones included (the segment name is not checked and further operands are ignored). An
  unrecognised opcode raises \<open>ValueError\<close> naming the opcode; a push or pop with fewer than
  two operands raises \<open>IndexError\<close>, one whose index is no integer literal raises
  \<open>ValueError\<close> naming the index.
\<close>

theorem parser_push_pop_acceptance:
  "((parse_command line = Inr (Push seg i)) =
      (\<exists>idx rest. split_ws line = ''push'' # seg # idx # rest \<and> py_int idx = Some i))
   \<and> ((parse_command line = Inr (Pop seg i)) =
      (\<exists>idx rest. split_ws line = ''pop'' # seg # idx # rest \<and> py_int idx = Some i))
   \<and> py_int (str_int i) = Some i
   \<and> (split_ws line = opc # rest \<longrightarrow>
       opc \<notin> set [''add'', ''sub'', ''neg'', ''eq'', ''gt'', ''lt'', ''and'', ''or'', ''not'',
         ''push'', ''pop'', ''label'', ''goto'', ''if-goto'', ''function'', ''call'', ''return''] \<longrightarrow>
       parse_command line = Inl (ValueError (''Unknown command: '' @ opc)))
   \<and> ((opc = ''push'' \<or> opc = ''pop'') \<longrightarrow>
       (split_ws line = [opc] \<or> split_ws line = [opc, seg]) \<longrightarrow>
       parse_command line = Inl IndexError)
   \<and> ((opc = ''push'' \<or> opc = ''pop'') \<longrightarrow> split_ws line = opc # seg # idx # rest \<longrightarrow>
       py_int idx = None \<longrightarrow>
       parse_command line = Inl (ValueError (''invalid literal for int() with base 10: '' @ idx)))"
  using parse_push_iff [of line seg i] parse_pop_iff [of line seg i] py_int_str_int [of i]
    parse_unknown_opcode [of line opc rest] parse_push_pop_missing [of opc line seg]
    parse_push_pop_not_int [of opc line seg idx rest]
  by blast

theorem parser_push_pop_acceptance_witness:
  "split_ws ''push constant -1'' = ''push'' # ''constant'' # ''-1'' # []
   \<and> py_int ''-1'' = Some (- 1)
   \<and> parse_command ''push constant -1'' = Inr (Push ''constant'' (- 1))
   \<and> split_ws ''bogus 1 2'' = ''bogus'' # [''1'', ''2'']
   \<and> parse_command ''bogus 1 2'' = Inl (ValueError (''Unknown command: '' @ ''bogus''))
   \<and> split_ws ''pop local'' = [''pop'', ''local'']
   \<and> parse_command ''pop local'' = Inl IndexError
   \<and> split_ws ''push local x1'' = ''push'' # ''local'' # ''x1'' # []
   \<and> py_int ''x1'' = None
   \<and> parse_command ''push local x1''
       = Inl (ValueError (''invalid literal for int() with base 10: '' @ ''x1''))"
proof -
  have s1: "split_ws ''push constant -1'' = ''push'' # ''constant'' # ''-1'' # []"
    by code_simp
  have i1: "py_int ''-1'' = Some (- 1)" by code_simp
  have s2: "split_ws ''bogus 1 2'' = ''bogus'' # [''1'', ''2'']" by code_simp
  have s3: "split_ws ''pop local'' = [''pop'', ''local'']" by code_simp
  have s4: "split_ws ''push local x1'' = ''push'' # ''local'' # ''x1'' # []" by code_simp
  have i4: "py_int ''x1'' = None" by code_simp
  have p1: "parse_command ''push constant -1'' = Inr (Push ''constant'' (- 1))"
    using parser_push_pop_acceptance [of "''push constant -1''" "''constant''" "- 1"] s1 i1
    by simp
  have p2: "parse_command ''bogus 1 2'' = Inl (ValueError (''Unknown command: '' @ ''bogus''))"
    using parser_push_pop_acceptance [of "''bogus 1 2''" _ _ "''bogus''" "[''1'', ''2'']"] s2
    by simp
  have p3: "parse_command ''pop local'' = Inl IndexError"
    using parser_push_pop_acceptance [of "''pop local''" "''local''" _ "''pop''"] s3
    by simp
  have p4: "parse_command ''push local x1''
       = Inl (ValueError (''invalid literal for int() with base 10: '' @ ''x1''))"
    using parser_push_pop_acceptance
      [of "''push local x1''" "''local''" _ "''push''" "[]" "''x1''"] s4 i4
    by simp
  from s1 i1 p1 s2 p2 s3 p3 s4 i4 p4 show ?thesis by blast
qed

section \<open>The claims about the translator's loop\<close>

text \<open>
  Claim C5 (evidence of the defect). A unit whose last command is followed by a comment
  line: the second \<open>advance\<close> finds no command and leaves \<open>current_command\<close> as it was,
  so the loop of \<open>translate\<close> generates the last command a second time. The text written
  holds the block of \<open>push constant 7\<close> twice.
\<close>

theorem trailing_comment_repeats_last_command:
  "translate (VMTranslator_init
      [(''Main.vm'', [''push constant 7\<newline>'', ''// done\<newline>''])])
   = Inr (\<lparr>vm_files = [(''Main.vm'', [''push constant 7\<newline>'', ''// done\<newline>''])],
          code_gen = (CodeGenerator_init None)\<lparr>current_file := ''Main''\<rparr>\<rparr>,
       init @ ''\<newline>// ===== File: Main.vm =====\<newline>''
       @ the (generate_push (CodeGenerator_init None) ''constant'' 7)
       @ the (generate_push (CodeGenerator_init None) ''constant'' 7))"
  by code_simp

text \<open>
  Claim C2 (evidence of the defect). A unit with one comparison command, followed by a
  comment line: the text written declares four comparison labels, not two, because the
  comparison is generated twice (the defect of claim C5). The four labels are distinct:
  the second block took the next value of the label counter.
\<close>

theorem one_comparison_four_labels:
  "map_sum id (\<lambda>r. comparison_labels (snd r))
     (translate (VMTranslator_init [(''Main.vm'', [''eq\<newline>'', ''// done\<newline>''])]))
   = Inr [''TRUE_0'', ''END_0'', ''TRUE_1'', ''END_1'']"
  by code_simp

text \<open>
  Claim C9. Two translators built one after the other for the same input write the same
  text: \<open>VMTranslator.__init__\<close> builds a new generator, whose two counters start at 0
  whatever an earlier translator did.
\<close>

theorem fresh_translators_write_same_text:
  "(translate_twice files = Inr (out1, out2) \<longrightarrow> out1 = out2)
   \<and> code_gen (VMTranslator_init files)
       = \<lparr>label_counter = 0, return_counter = 0, current_file = ''default'',
          current_function = []\<rparr>"
  by (auto simp: translate_twice_def VMTranslator_init_def CodeGenerator_init_def
      split: sum.splits)

theorem fresh_translators_write_same_text_witness:
  "\<not> isl (translate_twice [(''Main.vm'', [''eq\<newline>''])])
   \<and> fst (projr (translate_twice [(''Main.vm'', [''eq\<newline>''])]))
     = snd (projr (translate_twice [(''Main.vm'', [''eq\<newline>''])]))"
proof -
  have ok: "\<not> isl (translate_twice [(''Main.vm'', [''eq\<newline>''])])"
    by code_simp
  then obtain out1 out2 where
    r: "translate_twice [(''Main.vm'', [''eq\<newline>''])] = Inr (out1, out2)"
    by (cases "translate_twice [(''Main.vm'', [''eq\<newline>''])]") auto
  with fresh_translators_write_same_text [of "[(''Main.vm'', [''eq\<newline>''])]" out1 out2]
  have "out1 = out2" by simp
  with ok r show ?thesis by simp
qed

text \<open>
  By contrast, the counters do live on inside one translator: translating again with the
  translator a first run returned mints the next labels.
\<close>

lemma reused_translator_continues_counters:
  "map_sum id (\<lambda>r. comparison_labels (snd r))
     (case translate (VMTranslator_init [(''Main.vm'', [''eq\<newline>''])]) of
        Inl e \<Rightarrow> Inl e | Inr (t, out) \<Rightarrow> translate t)
   = Inr [''TRUE_1'', ''END_1'']"
  by code_simp

section \<open>Lines of a generated text\<close>

lemma readlines_from_line:
  "CHR 0x0A \<notin> set l \<Longrightarrow> readlines_from cur (l @ nl @ rest) = (cur @ l @ nl) # readlines_from [] rest"
  by (induction l arbitrary: cur) (auto simp: nl_def)

lemma readlines_text_of:
  "\<forall>l \<in> set ls. CHR 0x0A \<notin> set l \<Longrightarrow> readlines (text_of ls @ rest) = map (\<lambda>l. l @ nl) ls @ readlines rest"
proof (induction ls)
  case Nil
  then show ?case by (simp add: text_of_def)
next
  case (Cons l ls)
  then have "readlines (text_of ls @ rest) = map (\<lambda>l. l @ nl) ls @ readlines rest" by simp
  moreover have "readlines_from [] (l @ nl @ (text_of ls @ rest)) = ([] @ l @ nl) # readlines_from [] (text_of ls @ rest)"
    using Cons.prems by (intro readlines_from_line) simp
  ultimately show ?case by (simp add: text_of_def readlines_def)
qed

lemma isspace_nl: "isspace CHR 0x0A"
  by (simp add: isspace_def)

lemma strip_append_space: "isspace c \<Longrightarrow> strip (l @ [c]) = strip l"
proof (cases "\<forall>x\<in>set l. isspace x")
  case True
  assume c: "isspace c"
  from True have d: "dropWhile isspace l = []" by simp
  from True c have e: "dropWhile isspace (l @ [c]) = []" by simp
  show ?thesis unfolding strip_def d e by simp
next
  case False
  then obtain x where "x \<in> set l" "\<not> isspace x" by auto
  then have "dropWhile isspace (l @ [c]) = dropWhile isspace l @ [c]"
    by (rule dropWhile_append1)
  moreover assume "isspace c"
  ultimately show ?thesis by (simp add: strip_def)
qed

lemma strip_append_nl: "strip (l @ nl) = strip l"
  by (simp add: nl_def strip_append_space isspace_nl)

lemma asm_lines_text_of:
  "\<forall>l \<in> set ls. CHR 0x0A \<notin> set l \<Longrightarrow> asm_lines (text_of ls) = map strip ls"
  using readlines_text_of [of ls "[]"]
  by (simp add: asm_lines_def strip_append_nl readlines_def)

section \<open>Binary numerals\<close>

declare bin_str.simps [simp del]

lemma digit_char_0 [simp]: "digit_char 0 = CHR ''0''"
  by (simp add: digit_char_def)

lemma digit_char_1 [simp]: "digit_char (Suc 0) = CHR ''1''"
  by (simp add: digit_char_def)

lemma less_2_cases: "n < 2 \<Longrightarrow> n = 0 \<or> n = Suc 0"
  by auto

lemma int2_from_append:
  "int2_from acc (xs @ ys) = (case int2_from acc xs of None \<Rightarrow> None | Some v \<Rightarrow> int2_from v ys)"
  by (induction xs arbitrary: acc) auto

lemma int2_from_bit: "d < 2 \<Longrightarrow> int2_from acc [digit_char d] = Some (2 * acc + d)"
  by (auto dest!: less_2_cases)

lemma int2_from_bin_str: "int2_from 0 (bin_str n) = Some n"
proof (induction n rule: bin_str.induct)
  case (1 n)
  show ?case
  proof (cases "n < 2")
    case True
    then show ?thesis by (subst bin_str.simps) (auto dest!: less_2_cases)
  next
    case False
    have "int2_from (n div 2) [digit_char (n mod 2)] = Some (2 * (n div 2) + n mod 2)"
      by (rule int2_from_bit) simp
    with False "1.IH" show ?thesis
      by (subst bin_str.simps) (simp add: int2_from_append del: int2_from.simps)
  qed
qed

lemma int2_from_zeros: "int2_from 0 (replicate k CHR ''0'' @ s) = int2_from 0 s"
  by (induction k) auto

lemma digit_char_bit: "d < 2 \<Longrightarrow> digit_char d = CHR ''0'' \<or> digit_char d = CHR ''1''"
  by (auto dest!: less_2_cases)

lemma bin_str_chars: "c \<in> set (bin_str n) \<Longrightarrow> c = CHR ''0'' \<or> c = CHR ''1''"
proof (induction n rule: bin_str.induct)
  case (1 n)
  show ?case
  proof (cases "n < 2")
    case True
    with "1.prems" have "c = digit_char n" by (subst (asm) bin_str.simps) simp
    with True show ?thesis using digit_char_bit by blast
  next
    case False
    with "1.prems" have "c \<in> set (bin_str (n div 2)) \<or> c = digit_char (n mod 2)"
      by (subst (asm) bin_str.simps) auto
    moreover have "n mod 2 < 2" by simp
    ultimately show ?thesis using "1.IH" [OF False] digit_char_bit by blast
  qed
qed

lemma bin_str_nonempty: "bin_str n \<noteq> []"
  by (subst bin_str.simps) simp

lemma strip_a_instruction: "strip (generate_a_instruction n) = generate_a_instruction n"
proof (rule strip_id)
  show "generate_a_instruction n \<noteq> []" by (simp add: generate_a_instruction_def)
  show "\<not> isspace (hd (generate_a_instruction n))"
    by (simp add: generate_a_instruction_def isspace_def)
  have "last (generate_a_instruction n) = last (bin_str n)"
    by (simp add: generate_a_instruction_def format_015b_def bin_str_nonempty)
  moreover have "last (bin_str n) \<in> set (bin_str n)" by (simp add: bin_str_nonempty)
  ultimately have "last (generate_a_instruction n) = CHR ''0'' \<or> last (generate_a_instruction n) = CHR ''1''"
    using bin_str_chars by metis
  then show "\<not> isspace (last (generate_a_instruction n))" by (auto simp: isspace_def)
qed

lemma int2_a_instruction: "int2 (strip (generate_a_instruction n)) = Inr n"
proof -
  have "int2_from 0 (generate_a_instruction n) = Some n"
    using int2_from_zeros [of "15 - length (bin_str n)" "bin_str n"]
    by (simp add: generate_a_instruction_def format_015b_def int2_from_bin_str)
  moreover have "generate_a_instruction n \<noteq> []" by (simp add: generate_a_instruction_def)
  ultimately show ?thesis
    by (simp add: strip_a_instruction int2_def)
qed

section \<open>Assembling one line\<close>

lemma before_slashes_id: "CHR ''/'' \<notin> set s \<Longrightarrow> before_slashes s = s"
  by (induction s rule: before_slashes.induct) auto

lemma valid_symbol_chars:
  assumes "is_valid_symbol s" and "c \<in> set s"
  shows "\<not> isspace c \<and> c \<noteq> CHR ''/'' \<and> c \<noteq> CHR 0x0A \<and> c \<noteq> CHR '')''
      \<and> c \<notin> set [CHR 0xB2, CHR 0xB3, CHR 0xB9]"
proof -
  from assms have "c \<in> set ''abcdefghijklmnopqrstuvwxyzABCDEFGHIJKLMNOPQRSTUVWXYZ0123456789_.$:''"
    by (auto simp: is_valid_symbol_def list_all_iff split: if_splits)
  then show ?thesis by (auto simp: isspace_def)
qed

lemma valid_symbol_nonempty: "is_valid_symbol s \<Longrightarrow> s \<noteq> []"
  by (auto simp: is_valid_symbol_def)

lemma valid_symbol_not_digits: "is_valid_symbol s \<Longrightarrow> \<not> str_isdigit s"
proof -
  assume v: "is_valid_symbol s"
  then obtain c cs where s: "s = c # cs" by (cases s) (auto simp: is_valid_symbol_def)
  with v have "\<not> isdigit c" by (auto simp: is_valid_symbol_def split: if_splits)
  moreover from v s have "c \<notin> set [CHR 0xB2, CHR 0xB3, CHR 0xB9]"
    using valid_symbol_chars [of s c] by simp
  ultimately show ?thesis using s by (auto simp: str_isdigit_def)
qed

lemma strip_clean:
  assumes "\<not> isspace a" and "\<forall>c \<in> set s. \<not> isspace c"
  shows "strip (a # s) = a # s"
proof (rule strip_id)
  show "a # s \<noteq> []" by simp
  show "\<not> isspace (hd (a # s))" using assms by simp
  show "\<not> isspace (last (a # s))" using assms by (cases s rule: rev_cases) auto
qed

lemma current_instruction_clean:
  assumes "\<not> isspace a" and "a \<noteq> CHR ''/''"
    and "\<forall>c \<in> set s. \<not> isspace c \<and> c \<noteq> CHR ''/''"
  shows "current_instruction (strip (a # s)) = a # s"
proof -
  from assms have "strip (a # s) = a # s" by (intro strip_clean) auto
  moreover from assms have "before_slashes (a # s) = a # s" by (intro before_slashes_id) auto
  ultimately show ?thesis by (simp add: current_instruction_def)
qed

lemma current_instruction_comment: "current_instruction (strip (CHR ''/'' # CHR ''/'' # x)) = []"
proof -
  have ns: "\<not> isspace CHR ''/''" by (simp add: isspace_def)
  have "\<exists>y. strip (CHR ''/'' # CHR ''/'' # x) = CHR ''/'' # CHR ''/'' # y"
  proof (cases "\<forall>c \<in> set x. isspace c")
    case True
    then have "dropWhile isspace (rev x @ ''//'') = ''//''"
      by (simp add: dropWhile_append ns)
    then show ?thesis by (simp add: strip_def ns)
  next
    case False
    then obtain c where "c \<in> set (rev x)" "\<not> isspace c" by auto
    then have "dropWhile isspace (rev x @ ''//'') = dropWhile isspace (rev x) @ ''//''"
      by (rule dropWhile_append1)
    then show ?thesis by (simp add: strip_def ns)
  qed
  then obtain y where "strip (CHR ''/'' # CHR ''/'' # x) = CHR ''/'' # CHR ''/'' # y" by blast
  then show ?thesis by (simp add: current_instruction_def strip_def)
qed

lemma spl_comment [simp]: "second_pass_line st (strip (CHR ''/'' # CHR ''/'' # x)) = Inr st"
  by (simp add: second_pass_line_def current_instruction_comment split: prod.splits)

lemma spl_empty [simp]: "second_pass_line st (strip []) = Inr st"
  by (simp add: second_pass_line_def current_instruction_def strip_def split: prod.splits)

lemma spl_at_symbol:
  assumes "is_valid_symbol name" and "lookup symbols name = Some a"
  shows "second_pass_line (symbols, nv, b) (strip (CHR ''@'' # name))
     = Inr (symbols, nv, b @ [generate_a_instruction a])"
proof -
  have "current_instruction (strip (CHR ''@'' # name)) = CHR ''@'' # name"
    using assms(1) valid_symbol_chars by (intro current_instruction_clean) (auto simp: isspace_def)
  with assms valid_symbol_not_digits [OF assms(1)] show ?thesis
    by (simp add: second_pass_line_def instruction_type_def symbol_def)
qed

lemma spl_at_variable:
  assumes "is_valid_symbol name" and "lookup symbols name = None"
  shows "second_pass_line (symbols, nv, b) (strip (CHR ''@'' # name))
     = Inr ((name, nv) # symbols, nv + 1, b @ [generate_a_instruction nv])"
proof -
  have "current_instruction (strip (CHR ''@'' # name)) = CHR ''@'' # name"
    using assms(1) valid_symbol_chars by (intro current_instruction_clean) (auto simp: isspace_def)
  with assms valid_symbol_not_digits [OF assms(1)] show ?thesis
    by (simp add: second_pass_line_def instruction_type_def symbol_def)
qed

lemma isdigit_not_slash: "isdigit c \<Longrightarrow> c \<noteq> CHR ''/''"
  by (auto simp: isdigit_def)

lemma str_nat_str_isdigit: "str_isdigit (str_nat n)"
  using str_nat_digits [of n] by (auto simp: str_isdigit_def str_nat_nonempty list_all_iff)

lemma spl_at_number:
  assumes "n \<le> 32767"
  shows "second_pass_line (symbols, nv, b) (strip (CHR ''@'' # str_nat n))
     = Inr (symbols, nv, b @ [generate_a_instruction n])"
proof -
  have d: "\<forall>c \<in> set (str_nat n). \<not> isspace c \<and> c \<noteq> CHR ''/''"
    using str_nat_digits [of n] isdigit_not_space isdigit_not_slash by blast
  have "current_instruction (strip (CHR ''@'' # str_nat n)) = CHR ''@'' # str_nat n"
    using d by (intro current_instruction_clean) (auto simp: isspace_def)
  with assms show ?thesis
    by (simp add: second_pass_line_def instruction_type_def symbol_def str_nat_str_isdigit
        py_int_str_nat)
qed

lemma spl_label:
  assumes "is_valid_symbol name"
  shows "second_pass_line st (strip (CHR ''('' # name @ '')'')) = Inr st"
proof -
  have "current_instruction (strip (CHR ''('' # name @ '')'')) = CHR ''('' # name @ '')''"
    using assms valid_symbol_chars by (intro current_instruction_clean) (auto simp: isspace_def)
  then show ?thesis
    by (simp add: second_pass_line_def instruction_type_def split: prod.splits)
qed

lemma spl_C_lines:
  "second_pass_line (symbols, nv, b) (strip ''D=A'') = Inr (symbols, nv, b @ [''1110110000010000''])"
  "second_pass_line (symbols, nv, b) (strip ''A=M'') = Inr (symbols, nv, b @ [''1111110000100000''])"
  "second_pass_line (symbols, nv, b) (strip ''M=D'') = Inr (symbols, nv, b @ [''1110001100001000''])"
  "second_pass_line (symbols, nv, b) (strip ''M=M+1'') = Inr (symbols, nv, b @ [''1111110111001000''])"
  "second_pass_line (symbols, nv, b) (strip ''M=M-1'') = Inr (symbols, nv, b @ [''1111110010001000''])"
  "second_pass_line (symbols, nv, b) (strip ''D=M'') = Inr (symbols, nv, b @ [''1111110000010000''])"
  "second_pass_line (symbols, nv, b) (strip ''M=0'') = Inr (symbols, nv, b @ [''1110101010001000''])"
  "second_pass_line (symbols, nv, b) (strip ''M=-1'') = Inr (symbols, nv, b @ [''1110111010001000''])"
  "second_pass_line (symbols, nv, b) (strip ''D=D-A'') = Inr (symbols, nv, b @ [''1110010011010000''])"
  "second_pass_line (symbols, nv, b) (strip ''D=D+A'') = Inr (symbols, nv, b @ [''1110000010010000''])"
  "second_pass_line (symbols, nv, b) (strip ''A=D+A'') = Inr (symbols, nv, b @ [''1110000010100000''])"
  "second_pass_line (symbols, nv, b) (strip ''A=D-A'') = Inr (symbols, nv, b @ [''1110010011100000''])"
  "second_pass_line (symbols, nv, b) (strip ''D=M+1'') = Inr (symbols, nv, b @ [''1111110111010000''])"
  "second_pass_line (symbols, nv, b) (strip ''D=M-D'') = Inr (symbols, nv, b @ [''1111000111010000''])"
  "second_pass_line (symbols, nv, b) (strip ''M=D+M'') = Inr (symbols, nv, b @ [''1111000010001000''])"
  "second_pass_line (symbols, nv, b) (strip ''M=M-D'') = Inr (symbols, nv, b @ [''1111000111001000''])"
  "second_pass_line (symbols, nv, b) (strip ''M=D&M'') = Inr (symbols, nv, b @ [''1111000000001000''])"
  "second_pass_line (symbols, nv, b) (strip ''M=D|M'') = Inr (symbols, nv, b @ [''1111010101001000''])"
  "second_pass_line (symbols, nv, b) (strip ''M=-M'') = Inr (symbols, nv, b @ [''1111110011001000''])"
  "second_pass_line (symbols, nv, b) (strip ''M=!M'') = Inr (symbols, nv, b @ [''1111110001001000''])"
  "second_pass_line (symbols, nv, b) (strip ''0;JMP'') = Inr (symbols, nv, b @ [''1110101010000111''])"
  "second_pass_line (symbols, nv, b) (strip ''D;JEQ'') = Inr (symbols, nv, b @ [''1110001100000010''])"
  "second_pass_line (symbols, nv, b) (strip ''D;JGT'') = Inr (symbols, nv, b @ [''1110001100000001''])"
  "second_pass_line (symbols, nv, b) (strip ''D;JLT'') = Inr (symbols, nv, b @ [''1110001100000100''])"
  "second_pass_line (symbols, nv, b) (strip ''D;JNE'') = Inr (symbols, nv, b @ [''1110001100000101''])"
  "second_pass_line (symbols, nv, b) (strip ''M=D           // SP = 256'') = Inr (symbols, nv, b @ [''1110001100001000''])"
  "second_pass_line (symbols, nv, b) (strip ''M=D          // R13 = FRAME'') = Inr (symbols, nv, b @ [''1110001100001000''])"
  "second_pass_line (symbols, nv, b) (strip ''A=D-A        // A = FRAME - 5'') = Inr (symbols, nv, b @ [''1110010011100000''])"
  "second_pass_line (symbols, nv, b) (strip ''D=M          // D = *(FRAME - 5)'') = Inr (symbols, nv, b @ [''1111110000010000''])"
  "second_pass_line (symbols, nv, b) (strip ''M=D          // R14 = RET (return address)'') = Inr (symbols, nv, b @ [''1110001100001000''])"
  "second_pass_line (symbols, nv, b) (strip ''D=M          // D = return value'') = Inr (symbols, nv, b @ [''1111110000010000''])"
  "second_pass_line (symbols, nv, b) (strip ''M=D          // *ARG = return value'') = Inr (symbols, nv, b @ [''1110001100001000''])"
  by (simp_all add: second_pass_line_def current_instruction_def strip_def isspace_def
      instruction_type_def generate_c_instruction_def dest_def comp_field_def jump_def
      comp_table_def dest_table_def jump_table_def)

lemma int2_C_words:
  "int2 (strip ''1110110000010000'') = Inr 60432"
  "int2 (strip ''1111110000100000'') = Inr 64544"
  "int2 (strip ''1110001100001000'') = Inr 58120"
  "int2 (strip ''1111110111001000'') = Inr 64968"
  "int2 (strip ''1111110010001000'') = Inr 64648"
  "int2 (strip ''1111110000010000'') = Inr 64528"
  "int2 (strip ''1110101010001000'') = Inr 60040"
  "int2 (strip ''1110111010001000'') = Inr 61064"
  "int2 (strip ''1110010011010000'') = Inr 58576"
  "int2 (strip ''1110000010010000'') = Inr 57488"
  "int2 (strip ''1110000010100000'') = Inr 57504"
  "int2 (strip ''1110010011100000'') = Inr 58592"
  "int2 (strip ''1111110111010000'') = Inr 64976"
  "int2 (strip ''1111000111010000'') = Inr 61904"
  "int2 (strip ''1111000010001000'') = Inr 61576"
  "int2 (strip ''1111000111001000'') = Inr 61896"
  "int2 (strip ''1111000000001000'') = Inr 61448"
  "int2 (strip ''1111010101001000'') = Inr 62792"
  "int2 (strip ''1111110011001000'') = Inr 64712"
  "int2 (strip ''1111110001001000'') = Inr 64584"
  "int2 (strip ''1110101010000111'') = Inr 60039"
  "int2 (strip ''1110001100000010'') = Inr 58114"
  "int2 (strip ''1110001100000001'') = Inr 58113"
  "int2 (strip ''1110001100000100'') = Inr 58116"
  "int2 (strip ''1110001100000101'') = Inr 58117"
  by (simp_all add: strip_def isspace_def int2_def)

section \<open>The CPU on straight-line code\<close>

lemma ram_write_proj [simp]:
  "A (ram_write s a v) = A s" "D (ram_write s a v) = D s" "PC (ram_write s a v) = PC s"
  by (simp_all add: ram_write_def)

lemma w1: "word_of_int (NOT (uint (x::word16))) = NOT x"
  by (simp add: of_int_not_eq)
lemma w2: "word_of_int (uint (x::word16) AND uint y) = x AND y"
  by (simp add: of_int_and_eq)
lemma w3: "word_of_int (uint (x::word16) OR uint y) = x OR y"
  by (simp add: of_int_or_eq)

lemmas exec_defs = exec_word_def execute_c_instruction_def execute_a_instruction_def
  compute_def should_jump_def Let_def to_signed_def to_unsigned_def w1 w2 w3

lemma code_at_Cons:
  assumes "code_at rom p (w # ws)"
  shows "fetch rom p = w \<and> p < rom_size \<and> code_at rom (Suc p) ws"
proof -
  from assms have "fetch rom (p + 0) = (w # ws) ! 0"
    unfolding code_at_def by (metis length_greater_0_conv list.distinct(1))
  then have f: "fetch rom p = w" by simp
  have "fetch rom (Suc p + i) = ws ! i" if "i < length ws" for i
  proof -
    from that have "Suc i < length (w # ws)" by simp
    with assms have "fetch rom (p + Suc i) = (w # ws) ! Suc i"
      unfolding code_at_def by blast
    then show ?thesis by simp
  qed
  with f assms show ?thesis by (simp add: code_at_def)
qed

lemma execute_c_instruction_PC:
  assumes "execute_c_instruction w s = Inr s'" and "w mod 8 = 0"
  shows "PC s' = Suc (PC s)"
proof (cases "compute (w div 64 mod 64) (D s)
    (if w div 4096 mod 2 \<noteq> 0 then ram_read s (unat (A s)) else A s)")
  case (Inl e)
  with assms show ?thesis by (simp add: execute_c_instruction_def Let_def)
next
  case (Inr r)
  define s1 where "s1 = (if (w div 8 mod 8 div 4) mod 2 \<noteq> 0 then s\<lparr>A := r\<rparr> else s)"
  define s2 where "s2 = (if (w div 8 mod 8 div 2) mod 2 \<noteq> 0 then s1\<lparr>D := r\<rparr> else s1)"
  define s3 where "s3 = (if w div 8 mod 8 mod 2 \<noteq> 0 then ram_write s2 (unat (A s2)) r else s2)"
  have sj: "\<not> should_jump (w mod 8) r" using assms(2) by (simp add: should_jump_def)
  have "PC s1 = PC s" by (simp add: s1_def)
  then have "PC s2 = PC s" by (simp add: s2_def)
  then have p3: "PC s3 = PC s" by (simp add: s3_def)
  have "execute_c_instruction w s = Inr (s3\<lparr>PC := PC s3 + 1\<rparr>)"
    unfolding execute_c_instruction_def Let_def s1_def s2_def s3_def
    by (simp only: Inr sj sum.case if_False)
  with assms(1) have "s' = s3\<lparr>PC := PC s3 + 1\<rparr>" by simp
  with p3 show ?thesis by simp
qed

lemma exec_word_PC:
  assumes "straight w" and "exec_word w s = Inr s'"
  shows "PC s' = Suc (PC s)"
proof (cases "(w div 32768) mod 2 = 0")
  case True
  with assms show ?thesis by (auto simp: exec_word_def execute_a_instruction_def)
next
  case False
  with assms have "execute_c_instruction w s = Inr s'" "w mod 8 = 0"
    by (auto simp: exec_word_def straight_def)
  then show ?thesis by (rule execute_c_instruction_PC)
qed

lemma run_exec_seq:
  "code_at rom p ws \<Longrightarrow> list_all straight ws \<Longrightarrow> PC s = p \<Longrightarrow>
   run (length ws + n) rom s = (case exec_seq ws s of Inl e \<Rightarrow> Inl e | Inr s' \<Rightarrow> run n rom s')"
proof (induction ws arbitrary: p s)
  case Nil
  then show ?case by simp
next
  case (Cons w ws)
  from Cons.prems(1) have f: "fetch rom p = w" and b: "p < rom_size" and c: "code_at rom (Suc p) ws"
    using code_at_Cons by blast+
  from Cons.prems(2) have st: "straight w" and sts: "list_all straight ws" by simp_all
  have step_eq: "step rom s = (case exec_word w s of Inl e \<Rightarrow> Inl e | Inr s' \<Rightarrow> Inr (True, s'))"
    using f st Cons.prems(3) by (simp add: step_def straight_def exec_word_def Let_def)
  show ?case
  proof (cases "exec_word w s")
    case (Inl e)
    with step_eq b Cons.prems(3) show ?thesis by simp
  next
    case (Inr s1)
    with st have "PC s1 = Suc p" using exec_word_PC Cons.prems(3) by blast
    with Cons.IH [OF c sts] have "run (length ws + n) rom s1 =
       (case exec_seq ws s1 of Inl e \<Rightarrow> Inl e | Inr s' \<Rightarrow> run n rom s')" by simp
    with Inr step_eq b Cons.prems(3) show ?thesis by simp
  qed
qed

lemma exec_seq_PC:
  "list_all straight ws \<Longrightarrow> exec_seq ws s = Inr s' \<Longrightarrow> PC s' = PC s + length ws"
proof (induction ws arbitrary: s)
  case Nil
  then show ?case by simp
next
  case (Cons w ws)
  then show ?case
    by (auto split: sum.splits dest: exec_word_PC)
qed

end
